theory Spec2Isabelle
  imports Main "HOL-Library.Sublist"
begin

section \<open>Go values shared by the three programs\<close>

text \<open>
  The repository holds three copies of one command-line program: \<open>main.go\<close> (the current
  one, with the token cache and logrus warnings), an earlier copy with the token cache
  whose token function is \<open>getKeyvaultToken\<close>, and a first copy with no cache. This theory
  embeds \<open>main.go\<close> and the earlier cached copy. Definitions from the earlier copy carry the
  suffix \<open>_part001\<close> where the name is also used by \<open>main.go\<close>.
\<close>

subsection \<open>Errors\<close>

text \<open>
  A Go \<open>error\<close> is either an \<open>*os.PathError\<close> (operation, path, errno), as the file
  operations of package os return, or an error made from a string by \<open>errors.New\<close> or
  \<open>fmt.Errorf\<close>. \<open>Error\<close> is the \<open>Error()\<close> method, \<open>os_IsNotExist\<close> is
  \<open>os.IsNotExist\<close>.
\<close>

datatype errno = ENOENT | EACCES | EISDIR | EIO

fun strerror :: "errno \<Rightarrow> string" where
  "strerror ENOENT = ''no such file or directory''"
| "strerror EACCES = ''permission denied''"
| "strerror EISDIR = ''is a directory''"
| "strerror EIO = ''input/output error''"

datatype error = PathError string string errno | ErrorString string

fun Error :: "error \<Rightarrow> string" where
  "Error (PathError op path e) = op @ '' '' @ path @ '': '' @ strerror e"
| "Error (ErrorString s) = s"

fun os_IsNotExist :: "error \<Rightarrow> bool" where
  "os_IsNotExist (PathError op path e) = (e = ENOENT)"
| "os_IsNotExist (ErrorString s) = False"

definition strings_HasPrefix :: "string \<Rightarrow> string \<Rightarrow> bool" where
  "strings_HasPrefix s p = prefix p s"

definition Sprintln :: "string \<Rightarrow> string" where
  "Sprintln s = s @ ''\<newline>''"

subsection \<open>Library data\<close>

text \<open>
  \<open>adal.Token\<close>: \<open>ExpiresOn\<close> is the stored expiry in seconds since the epoch, \<open>None\<close>
  when the field does not hold a number (as in the zero token).

  Points in time are integers: nanoseconds since the Unix epoch.
  \<open>Token.Expires\<close> reads the seconds, with adal's default of \<open>-3600\<close>, and turns them
  into a time with \<open>date.NewUnixTimeFromSeconds\<close>, which computes
  \<open>time.Duration(seconds * float64(time.Second))\<close> and adds it to the epoch:
  \<^item> the product is a float64 product. With \<open>m = seconds * 5^9\<close> the exact product is
    \<open>m * 2^9\<close>; it is a float64 when \<open>m\<close> has at most 53 bits or is even, and
    otherwise lies half way between the two neighbouring float64 values and is rounded to
    the one with the even significand (\<open>m + 1\<close> or \<open>m - 1\<close>, whichever is a multiple of 4).
    Up to 4611686018 seconds the product is exact;
  \<^item> \<open>time.Duration\<close> is an int64 of nanoseconds. From 9223372037 seconds on (and below
    \<open>-9223372036\<close>) the product is outside int64, and the conversion gives the least int64
    (what the conversion instruction of amd64 gives for every value out of range): the
    time is then in the year 1677.
  \<open>IsExpired\<close> is \<open>WillExpireIn(0)\<close>: the expiry is not after the current time.
\<close>

record Token =
  AccessToken :: string
  RefreshToken :: string
  ExpiresOn :: "int option"

definition zeroToken :: Token where
  "zeroToken = \<lparr>AccessToken = '''', RefreshToken = '''', ExpiresOn = None\<rparr>"

definition minInt64 :: int where
  "minInt64 = - (2 ^ 63)"

definition date_NewUnixTimeFromSeconds :: "int \<Rightarrow> int" where
  "date_NewUnixTimeFromSeconds seconds =
     (if abs seconds \<le> 9223372036
      then (let m = seconds * 5 ^ 9
            in 2 ^ 9 * (if abs m < 2 ^ 53 \<or> even m then m
                        else if (m + 1) mod 4 = 0 then m + 1 else m - 1))
      else minInt64)"

definition Expires :: "Token \<Rightarrow> int" where
  "Expires t =
     date_NewUnixTimeFromSeconds (case ExpiresOn t of None \<Rightarrow> - 3600 | Some sec \<Rightarrow> sec)"

definition IsExpired :: "int \<Rightarrow> Token \<Rightarrow> bool" where
  "IsExpired now_t t = (\<not> (now_t < Expires t))"

record OAuthConfig =
  AuthorityEndpoint :: string
  AuthorizeEndpoint :: string
  TokenEndpoint :: string

record ServicePrincipalToken =
  spt_oauthConfig :: OAuthConfig
  spt_clientID :: string
  spt_secret :: string
  spt_resource :: string
  spt_token :: Token

datatype Authorizer = BearerAuthorizer ServicePrincipalToken

record BaseClient =
  client_Authorizer :: "Authorizer option"

record SecretBundle =
  Value :: "string option"
  ID :: "string option"

subsection \<open>The process-wide variables\<close>

record globals =
  vaultBaseURL :: string
  userSecretName :: string
  userSecretVersion :: string
  passwordSecretName :: string
  passwordSecretVersion :: string
  subscriptionID :: string
  tenantID :: string
  clientID :: string
  clientSecret :: string

subsection \<open>The world outside the program\<close>

text \<open>
  Every call that leaves the repository (the operating system, the clock, go-autorest's
  adal package, the Key Vault client, gotenv, path/filepath, net/url) is a field of the
  world: the program is verified for every behaviour of these calls. \<open>os_Getenv\<close> is the
  environment as \<open>os.Getenv\<close> reads it (the empty string for an unset variable).
  \<open>time_Now\<close> is the reading of the clock, in nanoseconds since the Unix epoch.
  \<open>adal_NewServicePrincipalToken\<close> and \<open>adal_NewServicePrincipalTokenFromManualToken\<close>
  give the verdict of the constructor's parameter validation; \<open>spt_Refresh\<close> is the
  client-credentials token request to the identity provider.
\<close>

record world =
  os_Getenv :: "string \<Rightarrow> string"
  time_Now :: int
  os_Open :: "string \<Rightarrow> errno option"
  gotenv_parse :: "string \<Rightarrow> error option"
  os_Stat :: "string \<Rightarrow> error option"
  filepath_Join :: "string \<Rightarrow> string \<Rightarrow> string"
  url_Parse :: "string \<Rightarrow> error + string"
  ActiveDirectoryEndpoint :: string
  adal_NewOAuthConfig :: "string \<Rightarrow> string \<Rightarrow> error + OAuthConfig"
  adal_LoadToken :: "string \<Rightarrow> error + Token"
  adal_NewServicePrincipalTokenFromManualToken ::
    "OAuthConfig \<Rightarrow> string \<Rightarrow> string \<Rightarrow> Token \<Rightarrow> error option"
  adal_NewServicePrincipalToken ::
    "OAuthConfig \<Rightarrow> string \<Rightarrow> string \<Rightarrow> string \<Rightarrow> error option"
  spt_Refresh :: "ServicePrincipalToken \<Rightarrow> error + Token"
  adal_SaveToken :: "string \<Rightarrow> nat \<Rightarrow> Token \<Rightarrow> error option"
  keyvault_GetSecret :: "BaseClient \<Rightarrow> string \<Rightarrow> string \<Rightarrow> string \<Rightarrow> error + SecretBundle"

subsection \<open>Effects\<close>

text \<open>
  What a run does to the outside is recorded in the state: the trace of events (lines on
  standard output, log calls with their format and arguments, network calls, calls of
  \<open>adal.SaveToken\<close>) and the token files written, each with its permission bits.
  A log call is recorded whatever the log level is. \<open>ArgMethodValue\<close> is the argument
  \<open>err.Error\<close> (the method itself, not its result) that two log calls of \<open>main.go\<close> pass;
  \<open>ArgElapsed\<close> is the measured duration of \<open>timeTrack\<close>.
\<close>

datatype fmtarg = ArgString string | ArgError error | ArgMethodValue error | ArgElapsed

datatype level = DebugLevel | InfoLevel | WarnLevel | FatalLevel | StdLogger

datatype event =
    Stdout string
  | Log level string "fmtarg list"
  | TokenRequest ServicePrincipalToken
  | SaveTokenCall string nat Token
  | GetSecretCall string string string
  | GoPanic

record state =
  trace :: "event list"
  files :: "string \<Rightarrow> (nat \<times> Token) option"

definition emit :: "event list \<Rightarrow> state \<Rightarrow> state" where
  "emit evs s = s\<lparr>trace := trace s @ evs\<rparr>"

text \<open>A function either returns or panics (a nil pointer dereference).\<close>

datatype 'a result = Panic | Return 'a

section \<open>Configuration loading\<close>

text \<open>
  \<open>gotenv.Load()\<close> with no argument opens \<open>.env\<close> with \<open>os.Open\<close>, returns the
  \<open>*os.PathError\<close> of a failed open as it is, and otherwise returns what parsing the file
  gives.
\<close>

definition gotenv_Load :: "world \<Rightarrow> error option" where
  "gotenv_Load w =
     (case os_Open w ''.env'' of
        Some e \<Rightarrow> Some (PathError ''open'' ''.env'' e)
      | None \<Rightarrow> gotenv_parse w ''.env'')"

definition loadEnvVars :: "world \<Rightarrow> error option" where
  "loadEnvVars w =
     (case gotenv_Load w of
        Some err \<Rightarrow>
          if \<not> strings_HasPrefix (Error err) ''open .env:'' then Some err else None
      | None \<Rightarrow> None)"

text \<open>
  \<open>parseArgs\<close> of \<open>main.go\<close>: reads the eight variables into the globals and builds the
  message. The fourth test reads \<open>userSecretName\<close>, as the source does.
\<close>

definition parseArgs :: "world \<Rightarrow> globals \<Rightarrow> globals \<times> error option" where
  "parseArgs w g =
     (let message = '''';
          g = g\<lparr>vaultBaseURL := os_Getenv w ''VAULT_BASE_URL''\<rparr>;
          message = (if vaultBaseURL g = ''''
                     then message @ Sprintln ''VAULT_BASE_URL missing'' else message);
          g = g\<lparr>userSecretName := os_Getenv w ''USER_SECRET_NAME''\<rparr>;
          message = (if userSecretName g = ''''
                     then message @ Sprintln ''USER_SECRET_NAME missing'' else message);
          g = g\<lparr>userSecretVersion := os_Getenv w ''USER_SECRET_VERSION''\<rparr>;
          message = (if userSecretVersion g = ''''
                     then message @ Sprintln ''USER_SECRET_VERSION missing'' else message);
          g = g\<lparr>passwordSecretName := os_Getenv w ''PASSWORD_SECRET_NAME''\<rparr>;
          message = (if userSecretName g = ''''
                     then message @ Sprintln ''PASSWORD_SECRET_NAME missing'' else message);
          g = g\<lparr>passwordSecretVersion := os_Getenv w ''PASSWORD_SECRET_VERSION''\<rparr>;
          message = (if passwordSecretVersion g = ''''
                     then message @ Sprintln ''PASSWORD_SECRET_VERSION missing'' else message);
          g = g\<lparr>tenantID := os_Getenv w ''AZ_TENANT_ID''\<rparr>;
          message = (if tenantID g = ''''
                     then message @ Sprintln ''AZ_TENANT_ID missing'' else message);
          g = g\<lparr>clientID := os_Getenv w ''AZ_CLIENT_ID''\<rparr>;
          message = (if clientID g = ''''
                     then message @ Sprintln ''AZ_CLIENT_ID missing'' else message);
          g = g\<lparr>clientSecret := os_Getenv w ''AZ_CLIENT_SECRET''\<rparr>;
          message = (if clientSecret g = ''''
                     then message @ Sprintln ''AZ_CLIENT_SECRET missing'' else message)
      in if length message > 0
         then (g, Some (ErrorString
                 (message @ ''| need to be defined in .env or environment variable.'')))
         else (g, None))"

section \<open>The credential cache of main.go\<close>

definition timeTrack :: "string \<Rightarrow> event" where
  "timeTrack name = Log InfoLevel ''Timings'' [ArgString name, ArgElapsed]"

text \<open>The permission bits \<open>0600\<close> (octal).\<close>

definition perm_0600 :: nat where
  "perm_0600 = 6 * 8 * 8 + 0 * 8 + 0"

definition tryLoadCachedToken ::
  "world \<Rightarrow> string \<Rightarrow> state \<Rightarrow> state \<times> Token option \<times> error option" where
  "tryLoadCachedToken w cachePath s =
     (case os_Stat w cachePath of
        Some err \<Rightarrow>
          if os_IsNotExist err
          then (emit [Log InfoLevel ''Cache path does not exist. Path=%q'' [ArgString cachePath],
                      timeTrack ''tryLoadCachedToken''] s, None, None)
          else (emit [timeTrack ''tryLoadCachedToken''] s, None, Some err)
      | None \<Rightarrow>
          (case adal_LoadToken w cachePath of
             Inl err \<Rightarrow>
               (emit [timeTrack ''tryLoadCachedToken''] s, None,
                Some (ErrorString (''Failed to load token from file: '' @ Error err)))
           | Inr token \<Rightarrow> (emit [timeTrack ''tryLoadCachedToken''] s, Some token, None)))"

text \<open>
  \<open>usable\<close> is the test \<open>rawToken != nil && !rawToken.IsExpired()\<close>: the token when the
  test holds.
\<close>

definition usable :: "world \<Rightarrow> Token option \<Rightarrow> Token option" where
  "usable w rawToken =
     (case rawToken of
        None \<Rightarrow> None
      | Some t \<Rightarrow> if \<not> IsExpired (time_Now w) t then Some t else None)"

definition getKeyvaultAuthorizer ::
  "world \<Rightarrow> globals \<Rightarrow> state \<Rightarrow> state \<times> (error + Authorizer)" where
  "getKeyvaultAuthorizer w g s =
     (case adal_NewOAuthConfig w (ActiveDirectoryEndpoint w) (tenantID g) of
        Inl err \<Rightarrow> (s, Inl (ErrorString (''Could not create oauthConfig: '' @ Error err)))
      | Inr oauthConfig \<Rightarrow>
     (case url_Parse w (''https://login.windows.net/'' @ tenantID g @ ''/oauth2/token'') of
        Inl err \<Rightarrow>
          (s, Inl (ErrorString (''Could not parse the Authorize Endpoint URL: '' @ Error err)))
      | Inr updatedAuthorizeEndpoint \<Rightarrow>
     (let oauthConfig = oauthConfig\<lparr>AuthorizeEndpoint := updatedAuthorizeEndpoint\<rparr>;
          cachePath = filepath_Join w ''cache'' (clientID g @ ''.token.json'');
          (s, rawToken, err) = tryLoadCachedToken w cachePath s;
          (s, rawToken) =
            (case err of
               Some e \<Rightarrow>
                 (emit [Log WarnLevel ''Could not load Raw Token from file: %v''
                          [ArgMethodValue e]] s, None)
             | None \<Rightarrow> (s, rawToken))
      in case usable w rawToken of
           Some tok \<Rightarrow>
             (case adal_NewServicePrincipalTokenFromManualToken w oauthConfig (clientID g)
                     ''https://vault.azure.net'' tok of
                Some err \<Rightarrow>
                  (emit [timeTrack ''NewServicePrincipalTokenFromManualToken''] s, Inl err)
              | None \<Rightarrow>
                  (let spt = \<lparr>spt_oauthConfig = oauthConfig, spt_clientID = clientID g,
                               spt_secret = '''', spt_resource = ''https://vault.azure.net'',
                               spt_token = tok\<rparr>
                   in (emit [timeTrack ''NewServicePrincipalTokenFromManualToken''] s,
                       Inr (BearerAuthorizer spt))))
         | None \<Rightarrow>
             (case adal_NewServicePrincipalToken w oauthConfig (clientID g) (clientSecret g)
                     ''https://vault.azure.net'' of
                Some err \<Rightarrow> (emit [timeTrack ''NewServicePrincipalToken''] s, Inl err)
              | None \<Rightarrow>
                  (let spt = \<lparr>spt_oauthConfig = oauthConfig, spt_clientID = clientID g,
                               spt_secret = clientSecret g,
                               spt_resource = ''https://vault.azure.net'',
                               spt_token = zeroToken\<rparr>;
                       s = emit [TokenRequest spt] s;
                       (s, spt) =
                         (case spt_Refresh w spt of
                            Inl err \<Rightarrow>
                              (emit [Log WarnLevel ''Could not refresh token: %v''
                                       [ArgMethodValue err]] s, spt)
                          | Inr t \<Rightarrow> (s, spt\<lparr>spt_token := t\<rparr>));
                       adRawToken = spt_token spt;
                       s = emit [SaveTokenCall cachePath perm_0600 adRawToken] s;
                       s = (case adal_SaveToken w cachePath perm_0600 adRawToken of
                              Some err \<Rightarrow>
                                emit [Log WarnLevel ''Could not save token to cache path=%q: %v''
                                        [ArgString cachePath, ArgString (Error err)]] s
                            | None \<Rightarrow>
                                s\<lparr>files := (files s)(cachePath \<mapsto> (perm_0600, adRawToken))\<rparr>);
                       s = emit [Log DebugLevel ''Saved token to cache. path=%q''
                                   [ArgString cachePath]] s
                   in (emit [timeTrack ''NewServicePrincipalToken''] s,
                       Inr (BearerAuthorizer spt)))))))"

definition getKeysClient ::
  "world \<Rightarrow> globals \<Rightarrow> state \<Rightarrow> state \<times> BaseClient \<times> error option" where
  "getKeysClient w g s =
     (let vmClient = \<lparr>client_Authorizer = None\<rparr> in
      case getKeyvaultAuthorizer w g s of
        (s, Inl err) \<Rightarrow> (s, vmClient, Some err)
      | (s, Inr authorizer) \<Rightarrow> (s, vmClient\<lparr>client_Authorizer := Some authorizer\<rparr>, None))"

section \<open>The secret client and the orchestrator of main.go\<close>

text \<open>
  \<open>getSecret\<close> dereferences \<open>secretBundle.Value\<close>, a \<open>*string\<close>: a bundle without a value
  makes it panic. The function has the same text in the earlier copy.
\<close>

definition getSecret ::
  "world \<Rightarrow> BaseClient \<Rightarrow> string \<Rightarrow> string \<Rightarrow> string \<Rightarrow> state
     \<Rightarrow> state \<times> (string \<times> error option) result" where
  "getSecret w cli vaultBaseURL_a secretName secretVersion s =
     (let s = emit [GetSecretCall vaultBaseURL_a secretName secretVersion] s in
      case keyvault_GetSecret w cli vaultBaseURL_a secretName secretVersion of
        Inl err \<Rightarrow> (s, Return ('''', Some err))
      | Inr secretBundle \<Rightarrow>
          (case Value secretBundle of
             None \<Rightarrow> (emit [GoPanic] s, Panic)
           | Some v \<Rightarrow> (s, Return (v, None))))"

text \<open>
  \<open>warnSecret\<close> is the statement \<open>if err != nil { log.Warnf(...) }\<close> that follows each
  of the three fetches of \<open>main\<close>.
\<close>

definition warnSecret :: "string \<Rightarrow> error option \<Rightarrow> state \<Rightarrow> state" where
  "warnSecret name err s =
     (case err of
        Some e \<Rightarrow>
          emit [Log WarnLevel ''Error when trying to retrieve secret %s. Error: %v''
                  [ArgString name, ArgString (Error e)]] s
      | None \<Rightarrow> s)"

text \<open>
  \<open>main\<close> returns the final state and the exit status of the process: 1 after
  \<open>log.Fatalf\<close>, 2 after a panic, 0 when \<open>main\<close> returns.
\<close>

definition main :: "world \<Rightarrow> globals \<Rightarrow> state \<Rightarrow> state \<times> nat" where
  "main w g s =
     (case parseArgs w g of
        (g, Some err) \<Rightarrow>
          (emit [Log FatalLevel ''failed to parse args: %s\<newline>'' [ArgError err]] s, 1)
      | (g, None) \<Rightarrow>
     (let s = emit [Stdout (Sprintln ''Getting Key Vault'')] s in
      case getKeysClient w g s of
        (s, cli, Some err) \<Rightarrow>
          (emit [Log FatalLevel ''Could not get a Key Vault Client. %v'' [ArgError err]] s, 1)
      | (s, cli, None) \<Rightarrow>
     (case getSecret w cli (vaultBaseURL g) (userSecretName g) (userSecretVersion g) s of
        (s, Panic) \<Rightarrow> (s, 2)
      | (s, Return (username, err)) \<Rightarrow>
     (let s = warnSecret (userSecretName g) err s;
          s = emit [Stdout (''Username Value= '' @ username @ ''\<newline>'')] s;
          s = emit [Stdout (Sprintln ''--- Password with no version set (current) ---'')] s in
      case getSecret w cli (vaultBaseURL g) (passwordSecretName g) '''' s of
        (s, Panic) \<Rightarrow> (s, 2)
      | (s, Return (password, err)) \<Rightarrow>
     (let s = warnSecret (passwordSecretName g) err s;
          s = emit [Stdout (''  Password Value= '' @ password @ ''\<newline>'')] s;
          s = emit [Stdout (''--- Password version '' @ passwordSecretVersion g
                              @ '' ---\<newline>'')] s in
      case getSecret w cli (vaultBaseURL g) (passwordSecretName g)
             (passwordSecretVersion g) s of
        (s, Panic) \<Rightarrow> (s, 2)
      | (s, Return (password, err)) \<Rightarrow>
     (let s = warnSecret (passwordSecretName g) err s;
          s = emit [Stdout (''  Password Value= '' @ password @ ''\<newline>'')] s
      in (s, 0)))))))"

section \<open>The earlier copy with the token cache\<close>

text \<open>
  The earlier copy logs with the standard logger and has no warnings: its token function
  \<open>getKeyvaultToken\<close> returns the error of a failed cache read and of a failed cache
  write, and its \<open>main\<close> ends the process through \<open>onErrorFail\<close> at the first failed
  fetch. It dereferences the result of \<open>url.Parse\<close> before the error test, which is a
  panic when the parse fails.
\<close>

definition timeTrack_part001 :: "string \<Rightarrow> event" where
  "timeTrack_part001 name = Log StdLogger ''%s took %s'' [ArgString name, ArgElapsed]"

definition LoadEnvVars :: "world \<Rightarrow> error option" where
  "LoadEnvVars w =
     (case gotenv_Load w of
        Some err \<Rightarrow>
          if \<not> strings_HasPrefix (Error err) ''open .env:'' then Some err else None
      | None \<Rightarrow> None)"

text \<open>
  After the call of \<open>LoadEnvVars\<close>, \<open>parseArgs\<close> of the earlier copy has the text of
  \<open>parseArgs\<close> of \<open>main.go\<close>, and ends with \<open>return err\<close> where \<open>err\<close> is nil.
\<close>

definition parseArgs_part001 :: "world \<Rightarrow> globals \<Rightarrow> globals \<times> error option" where
  "parseArgs_part001 w g =
     (case LoadEnvVars w of
        Some err \<Rightarrow> (g, Some err)
      | None \<Rightarrow> parseArgs w g)"

definition tryLoadCachedToken_part001 ::
  "world \<Rightarrow> string \<Rightarrow> state \<Rightarrow> state \<times> Token option \<times> error option" where
  "tryLoadCachedToken_part001 w cachePath s =
     (case os_Stat w cachePath of
        Some err \<Rightarrow>
          if os_IsNotExist err
          then (emit [Log StdLogger ''Cache path does not exist. Path=%q''
                        [ArgString cachePath]] s, None, None)
          else (s, None, Some err)
      | None \<Rightarrow>
          (case adal_LoadToken w cachePath of
             Inl err \<Rightarrow>
               (s, None, Some (ErrorString (''Failed to load token from file: '' @ Error err)))
           | Inr token \<Rightarrow> (s, Some token, None)))"

definition getKeyvaultToken ::
  "world \<Rightarrow> globals \<Rightarrow> state \<Rightarrow> state \<times> (error + Authorizer) result" where
  "getKeyvaultToken w g s =
     (case adal_NewOAuthConfig w (ActiveDirectoryEndpoint w) (tenantID g) of
        Inl err \<Rightarrow> (s, Return (Inl err))
      | Inr oauthConfig \<Rightarrow>
     (case url_Parse w (''https://login.windows.net/'' @ tenantID g @ ''/oauth2/token'') of
        Inl err \<Rightarrow> (emit [GoPanic] s, Panic)
      | Inr updatedAuthorizeEndpoint \<Rightarrow>
     (let oauthConfig = oauthConfig\<lparr>AuthorizeEndpoint := updatedAuthorizeEndpoint\<rparr>;
          cachePath = filepath_Join w ''cache'' (clientID g @ ''.token.json'')
      in case tryLoadCachedToken_part001 w cachePath s of
           (s, rawToken, Some err) \<Rightarrow> (s, Return (Inl err))
         | (s, rawToken, None) \<Rightarrow>
     (case usable w rawToken of
        Some tok \<Rightarrow>
          (case adal_NewServicePrincipalTokenFromManualToken w oauthConfig (clientID g)
                  ''https://vault.azure.net'' tok of
             Some err \<Rightarrow> (emit [timeTrack_part001 ''From File''] s, Return (Inl err))
           | None \<Rightarrow>
               (let spt = \<lparr>spt_oauthConfig = oauthConfig, spt_clientID = clientID g,
                            spt_secret = '''', spt_resource = ''https://vault.azure.net'',
                            spt_token = tok\<rparr>
                in (emit [timeTrack_part001 ''From File''] s,
                    Return (Inr (BearerAuthorizer spt)))))
      | None \<Rightarrow>
          (case adal_NewServicePrincipalToken w oauthConfig (clientID g) (clientSecret g)
                  ''https://vault.azure.net'' of
             Some err \<Rightarrow> (emit [timeTrack_part001 ''No File''] s, Return (Inl err))
           | None \<Rightarrow>
               (let spt = \<lparr>spt_oauthConfig = oauthConfig, spt_clientID = clientID g,
                            spt_secret = clientSecret g,
                            spt_resource = ''https://vault.azure.net'',
                            spt_token = zeroToken\<rparr>;
                    s = emit [TokenRequest spt] s;
                    (s, spt) =
                      (case spt_Refresh w spt of
                         Inl err \<Rightarrow>
                           (emit [Log StdLogger ''Refresh token failed'' [ArgError err]] s, spt)
                       | Inr t \<Rightarrow> (s, spt\<lparr>spt_token := t\<rparr>));
                    adRawToken = spt_token spt;
                    s = emit [SaveTokenCall cachePath perm_0600 adRawToken] s
                in case adal_SaveToken w cachePath perm_0600 adRawToken of
                     Some err \<Rightarrow> (emit [timeTrack_part001 ''No File''] s, Return (Inl err))
                   | None \<Rightarrow>
                       (let s = s\<lparr>files := (files s)(cachePath \<mapsto> (perm_0600, adRawToken))\<rparr>;
                            s = emit [Log StdLogger ''Saved token to cache. path=%q''
                                        [ArgString cachePath]] s
                        in (emit [timeTrack_part001 ''No File''] s,
                            Return (Inr (BearerAuthorizer spt))))))))))"

definition getKeysClient_part001 ::
  "world \<Rightarrow> globals \<Rightarrow> state \<Rightarrow> state \<times> (BaseClient \<times> error option) result" where
  "getKeysClient_part001 w g s =
     (let vmClient = \<lparr>client_Authorizer = None\<rparr> in
      case getKeyvaultToken w g s of
        (s, Panic) \<Rightarrow> (s, Panic)
      | (s, Return (Inl err)) \<Rightarrow> (s, Return (vmClient, Some err))
      | (s, Return (Inr token)) \<Rightarrow>
          (s, Return (vmClient\<lparr>client_Authorizer := Some token\<rparr>, None)))"

text \<open>
  \<open>onErrorFail\<close> gives the exit status when it ends the process, \<open>None\<close> when it
  returns.
\<close>

definition onErrorFail :: "error option \<Rightarrow> string \<Rightarrow> state \<Rightarrow> state \<times> nat option" where
  "onErrorFail err message s =
     (case err of
        Some e \<Rightarrow> (emit [Stdout (message @ '': '' @ Error e)] s, Some 1)
      | None \<Rightarrow> (s, None))"

definition main_part001 :: "world \<Rightarrow> globals \<Rightarrow> state \<Rightarrow> state \<times> nat" where
  "main_part001 w g s =
     (case parseArgs_part001 w g of
        (g, Some err) \<Rightarrow>
          (emit [Log StdLogger ''failed to parse args: %s\<newline>'' [ArgError err]] s, 1)
      | (g, None) \<Rightarrow>
     (let s = emit [Stdout (Sprintln ''Getting Key Vault'')] s in
      case getKeysClient_part001 w g s of
        (s, Panic) \<Rightarrow> (s, 2)
      | (s, Return (cli, err)) \<Rightarrow>
     (case onErrorFail err ''getKeysClient failed'' s of
        (s, Some code) \<Rightarrow> (s, code)
      | (s, None) \<Rightarrow>
     (case getSecret w cli (vaultBaseURL g) (userSecretName g) (userSecretVersion g) s of
        (s, Panic) \<Rightarrow> (s, 2)
      | (s, Return (username, err)) \<Rightarrow>
     (case onErrorFail err ''getUsername failed'' s of
        (s, Some code) \<Rightarrow> (s, code)
      | (s, None) \<Rightarrow>
     (let s = emit [Stdout (''Username Value= '' @ username @ ''\<newline>'')] s;
          s = emit [Stdout (Sprintln ''--- Password with no version set (current) ---'')] s in
      case getSecret w cli (vaultBaseURL g) (passwordSecretName g) '''' s of
        (s, Panic) \<Rightarrow> (s, 2)
      | (s, Return (password, err)) \<Rightarrow>
     (case onErrorFail err ''getPassword failed'' s of
        (s, Some code) \<Rightarrow> (s, code)
      | (s, None) \<Rightarrow>
     (let s = emit [Stdout (''  Password Value= '' @ password @ ''\<newline>'')] s;
          s = emit [Stdout (''--- Password version '' @ passwordSecretVersion g
                              @ '' ---\<newline>'')] s in
      case getSecret w cli (vaultBaseURL g) (passwordSecretName g)
             (passwordSecretVersion g) s of
        (s, Panic) \<Rightarrow> (s, 2)
      | (s, Return (password, err)) \<Rightarrow>
     (case onErrorFail err ''getPassword failed'' s of
        (s, Some code) \<Rightarrow> (s, code)
      | (s, None) \<Rightarrow>
          (emit [Stdout (''  Password Value= '' @ password @ ''\<newline>'')] s, 0))))))))))"

section \<open>Concrete inputs\<close>

text \<open>
  \<open>world0\<close>: every environment variable has the value \<open>x\<close>, there is no \<open>.env\<close> and no
  cache file, every library call succeeds, the identity provider issues the token
  \<open>token1\<close> (expiry at 5000 seconds; the clock reads 1000 seconds, that is
  \<open>1000 * 10^9\<close> nanoseconds) and every secret has the value \<open>v\<close>. \<open>token_old\<close> expired at
  500 seconds; the stored expiry of \<open>token_far\<close>, \<open>10^10\<close> seconds, is in the year 2286.
  \<open>globals0\<close> holds Go's zero values.
\<close>

definition globals0 :: globals where
  "globals0 = \<lparr>vaultBaseURL = '''', userSecretName = '''', userSecretVersion = '''',
      passwordSecretName = '''', passwordSecretVersion = '''', subscriptionID = '''',
      tenantID = '''', clientID = '''', clientSecret = ''''\<rparr>"

definition globals1 :: globals where
  "globals1 = \<lparr>vaultBaseURL = ''x'', userSecretName = ''x'', userSecretVersion = ''x'',
      passwordSecretName = ''x'', passwordSecretVersion = ''x'', subscriptionID = '''',
      tenantID = ''x'', clientID = ''x'', clientSecret = ''x''\<rparr>"

definition state0 :: state where
  "state0 = \<lparr>trace = [], files = (\<lambda>p. None)\<rparr>"

definition token1 :: Token where
  "token1 = \<lparr>AccessToken = ''a1'', RefreshToken = '''', ExpiresOn = Some 5000\<rparr>"

definition token_old :: Token where
  "token_old = \<lparr>AccessToken = ''a0'', RefreshToken = '''', ExpiresOn = Some 500\<rparr>"

definition token_far :: Token where
  "token_far = \<lparr>AccessToken = ''a2'', RefreshToken = '''', ExpiresOn = Some 10000000000\<rparr>"

definition config0 :: OAuthConfig where
  "config0 = \<lparr>AuthorityEndpoint = ''authority'', AuthorizeEndpoint = ''authorize'',
      TokenEndpoint = ''token''\<rparr>"

definition world0 :: world where
  "world0 = \<lparr>os_Getenv = (\<lambda>v. ''x''),
      time_Now = 1000 * 10 ^ 9,
      os_Open = (\<lambda>p. Some ENOENT),
      gotenv_parse = (\<lambda>p. None),
      os_Stat = (\<lambda>p. Some (PathError ''stat'' p ENOENT)),
      filepath_Join = (\<lambda>a b. a @ ''/'' @ b),
      url_Parse = (\<lambda>u. Inr u),
      ActiveDirectoryEndpoint = ''https://login.microsoftonline.com/'',
      adal_NewOAuthConfig = (\<lambda>e t. Inr config0),
      adal_LoadToken = (\<lambda>p. Inl (PathError ''open'' p ENOENT)),
      adal_NewServicePrincipalTokenFromManualToken = (\<lambda>c i r t. None),
      adal_NewServicePrincipalToken = (\<lambda>c i k r. None),
      spt_Refresh = (\<lambda>spt. Inr token1),
      adal_SaveToken = (\<lambda>p m t. None),
      keyvault_GetSecret = (\<lambda>c b n v. Inr \<lparr>Value = Some ''v'', ID = None\<rparr>)\<rparr>"

section \<open>Observations on a run\<close>

fun is_TokenRequest :: "event \<Rightarrow> bool" where
  "is_TokenRequest (TokenRequest spt) = True"
| "is_TokenRequest e = False"

fun is_network :: "event \<Rightarrow> bool" where
  "is_network (TokenRequest spt) = True"
| "is_network (GetSecretCall b n v) = True"
| "is_network e = False"

fun is_GetSecretCall :: "event \<Rightarrow> bool" where
  "is_GetSecretCall (GetSecretCall b n v) = True"
| "is_GetSecretCall e = False"

definition tokenRequests :: "state \<Rightarrow> nat" where
  "tokenRequests s = length (filter is_TokenRequest (trace s))"

definition networkCalls :: "state \<Rightarrow> nat" where
  "networkCalls s = length (filter is_network (trace s))"

definition secretFetches :: "state \<Rightarrow> nat" where
  "secretFetches s = length (filter is_GetSecretCall (trace s))"

text \<open>
  The three cases in which the cache gives no usable token: there is no cache file (or
  it cannot be examined), the file does not load, or the token it holds is expired.
\<close>

definition cache_miss :: "world \<Rightarrow> string \<Rightarrow> bool" where
  "cache_miss w p =
     (case os_Stat w p of
        Some err \<Rightarrow> True
      | None \<Rightarrow> (case adal_LoadToken w p of Inl err \<Rightarrow> True | Inr t \<Rightarrow> IsExpired (time_Now w) t))"

section \<open>Configuration loading: results\<close>

lemma sublist_if_append: "sublist x m \<Longrightarrow> sublist x (if c then m @ y else m)"
  by (auto simp: sublist_append)

lemma sublist_line: "sublist x (m @ Sprintln x)"
  unfolding Sprintln_def by (metis sublist_appendI)

lemma parseArgs_final:
  assumes "sublist x m" and "x \<noteq> []"
  shows "\<exists>msg. snd (if length m > 0 then (g, Some (ErrorString (m @ sfx))) else (g', None))
            = Some (ErrorString msg) \<and> sublist x msg"
proof -
  from assms have "m \<noteq> []" by auto
  moreover from assms have "sublist x (m @ sfx)" by (simp add: sublist_append)
  ultimately show ?thesis by simp
qed

lemma parseArgs_user_version:
  assumes "os_Getenv w ''USER_SECRET_VERSION'' = ''''"
  shows "\<exists>msg. snd (parseArgs w g) = Some (ErrorString msg)
           \<and> sublist ''USER_SECRET_VERSION missing'' msg"
  unfolding parseArgs_def Let_def
  apply (rule parseArgs_final)
   apply (rule sublist_if_append)
   apply (rule sublist_if_append)
   apply (rule sublist_if_append)
   apply (rule sublist_if_append)
   apply (rule sublist_if_append)
   apply (simp add: assms sublist_line split del: if_split cong: if_cong)
  apply simp
  done

lemma parseArgs_password_version:
  assumes "os_Getenv w ''PASSWORD_SECRET_VERSION'' = ''''"
  shows "\<exists>msg. snd (parseArgs w g) = Some (ErrorString msg)
           \<and> sublist ''PASSWORD_SECRET_VERSION missing'' msg"
  unfolding parseArgs_def Let_def
  apply (rule parseArgs_final)
   apply (rule sublist_if_append)
   apply (rule sublist_if_append)
   apply (rule sublist_if_append)
   apply (simp add: assms sublist_line split del: if_split cong: if_cong)
  apply simp
  done

text \<open>
  C2. Every missing variable is named in the error of \<open>parseArgs\<close>; in particular
  \<open>PASSWORD_SECRET_NAME\<close> is named whenever it is empty. The code tests
  \<open>userSecretName\<close> a second time where \<open>passwordSecretName\<close> is meant: with only
  \<open>PASSWORD_SECRET_NAME\<close> unset, \<open>parseArgs\<close> returns no error at all and leaves the
  password secret name empty.
\<close>

theorem parseArgs_misses_password_secret_name:
  "parseArgs (world0\<lparr>os_Getenv := (\<lambda>v. ''x'')(''PASSWORD_SECRET_NAME'' := '''')\<rparr>) globals0
     = (globals1\<lparr>passwordSecretName := ''''\<rparr>, None)"
  by (simp add: parseArgs_def Sprintln_def world0_def globals0_def globals1_def)

text \<open>
  The same slip the other way round: with only \<open>USER_SECRET_NAME\<close> unset, the message
  also reports \<open>PASSWORD_SECRET_NAME\<close>, which is set.
\<close>

lemma parseArgs_reports_password_secret_name_wrongly:
  "snd (parseArgs (world0\<lparr>os_Getenv := (\<lambda>v. ''x'')(''USER_SECRET_NAME'' := '''')\<rparr>) globals0)
     = Some (ErrorString (''USER_SECRET_NAME missing\<newline>PASSWORD_SECRET_NAME missing\<newline>''
               @ ''| need to be defined in .env or environment variable.''))"
  by (simp add: parseArgs_def Sprintln_def world0_def globals0_def)

text \<open>
  C7, as stated: a configuration with an empty secret version is accepted. It is not:
  with only \<open>USER_SECRET_VERSION\<close> unset, \<open>parseArgs\<close> returns the error that reports it.
\<close>

theorem parseArgs_rejects_empty_version:
  "snd (parseArgs (world0\<lparr>os_Getenv := (\<lambda>v. ''x'')(''USER_SECRET_VERSION'' := '''')\<rparr>) globals0)
     = Some (ErrorString (''USER_SECRET_VERSION missing\<newline>''
               @ ''| need to be defined in .env or environment variable.''))"
  by (simp add: parseArgs_def Sprintln_def world0_def globals0_def)

text \<open>
  C7, amended: both secret versions are required. Whenever \<open>USER_SECRET_VERSION\<close> or
  \<open>PASSWORD_SECRET_VERSION\<close> is empty, \<open>parseArgs\<close> returns an error, and the message
  reports each of the two that is empty as missing.
\<close>

theorem parseArgs_requires_versions:
  assumes "os_Getenv w ''USER_SECRET_VERSION'' = ''''
           \<or> os_Getenv w ''PASSWORD_SECRET_VERSION'' = ''''"
  shows "\<exists>msg. snd (parseArgs w g) = Some (ErrorString msg)
           \<and> (os_Getenv w ''USER_SECRET_VERSION'' = ''''
                \<longrightarrow> sublist ''USER_SECRET_VERSION missing'' msg)
           \<and> (os_Getenv w ''PASSWORD_SECRET_VERSION'' = ''''
                \<longrightarrow> sublist ''PASSWORD_SECRET_VERSION missing'' msg)"
  using assms parseArgs_user_version [of w g] parseArgs_password_version [of w g]
  by auto

theorem parseArgs_requires_versions_witness:
  "\<exists>msg. snd (parseArgs (world0\<lparr>os_Getenv := (\<lambda>v. '''')\<rparr>) globals0) = Some (ErrorString msg)
     \<and> sublist ''USER_SECRET_VERSION missing'' msg
     \<and> sublist ''PASSWORD_SECRET_VERSION missing'' msg"
  using parseArgs_requires_versions [of "world0\<lparr>os_Getenv := (\<lambda>v. '''')\<rparr>" globals0]
  by simp

text \<open>
  C9, as stated: an \<open>.env\<close> that is present but unreadable is an error. It is not when
  the file cannot be opened: the error of \<open>os.Open\<close> reads
  \<open>open .env: permission denied\<close>, which has the prefix that \<open>loadEnvVars\<close> ignores.
\<close>

theorem loadEnvVars_ignores_permission_error:
  "gotenv_Load (world0\<lparr>os_Open := (\<lambda>p. Some EACCES)\<rparr>) = Some (PathError ''open'' ''.env'' EACCES)
   \<and> Error (PathError ''open'' ''.env'' EACCES) = ''open .env: permission denied''
   \<and> loadEnvVars (world0\<lparr>os_Open := (\<lambda>p. Some EACCES)\<rparr>) = None"
  by (simp add: loadEnvVars_def gotenv_Load_def strings_HasPrefix_def world0_def)

text \<open>
  C9, amended: \<open>loadEnvVars\<close> returns no error when \<open>.env\<close> cannot be opened, whatever
  the reason (the file is absent, or it is present and opening it is refused), and when
  it is loaded; it returns the error of every \<open>.env\<close> that is opened and fails to
  parse (the message of such an error does not start with \<open>open .env:\<close>).
\<close>

theorem loadEnvVars_open_errors_ignored:
  "(os_Open w ''.env'' \<noteq> None \<longrightarrow> loadEnvVars w = None)
   \<and> (os_Open w ''.env'' = None \<longrightarrow> gotenv_parse w ''.env'' = None \<longrightarrow> loadEnvVars w = None)
   \<and> (os_Open w ''.env'' = None \<longrightarrow> gotenv_parse w ''.env'' = Some err
        \<longrightarrow> \<not> prefix ''open .env:'' (Error err) \<longrightarrow> loadEnvVars w = Some err)"
proof (intro conjI impI)
  assume "os_Open w ''.env'' \<noteq> None"
  then obtain e where "os_Open w ''.env'' = Some e" by auto
  then show "loadEnvVars w = None"
    by (cases e) (simp_all add: loadEnvVars_def gotenv_Load_def strings_HasPrefix_def)
next
  assume "os_Open w ''.env'' = None" and "gotenv_parse w ''.env'' = None"
  then show "loadEnvVars w = None"
    by (simp add: loadEnvVars_def gotenv_Load_def)
next
  assume "os_Open w ''.env'' = None" and "gotenv_parse w ''.env'' = Some err"
    and "\<not> prefix ''open .env:'' (Error err)"
  then show "loadEnvVars w = Some err"
    by (simp add: loadEnvVars_def gotenv_Load_def strings_HasPrefix_def)
qed

theorem loadEnvVars_open_errors_ignored_witness:
  "loadEnvVars world0 = None
   \<and> loadEnvVars (world0\<lparr>os_Open := (\<lambda>p. None)\<rparr>) = None
   \<and> loadEnvVars (world0\<lparr>os_Open := (\<lambda>p. None),
                          gotenv_parse := (\<lambda>p. Some (ErrorString ''line 1 is malformed''))\<rparr>)
       = Some (ErrorString ''line 1 is malformed'')"
  using loadEnvVars_open_errors_ignored [of world0 "ErrorString []"]
    loadEnvVars_open_errors_ignored [of "world0\<lparr>os_Open := (\<lambda>p. None)\<rparr>" "ErrorString []"]
    loadEnvVars_open_errors_ignored
      [of "world0\<lparr>os_Open := (\<lambda>p. None),
                  gotenv_parse := (\<lambda>p. Some (ErrorString ''line 1 is malformed''))\<rparr>"
          "ErrorString ''line 1 is malformed''"]
  by (simp add: world0_def)

section \<open>The credential cache: results\<close>

lemma trace_emit: "trace (emit evs s) = trace s @ evs"
  by (simp add: emit_def)

lemma files_emit: "files (emit evs s) = files s"
  by (simp add: emit_def)

lemma tokenRequests_emit:
  "tokenRequests (emit evs s) = tokenRequests s + length (filter is_TokenRequest evs)"
  by (simp add: emit_def tokenRequests_def)

lemma networkCalls_emit:
  "networkCalls (emit evs s) = networkCalls s + length (filter is_network evs)"
  by (simp add: emit_def networkCalls_def)

lemma tokenRequests_files_update: "tokenRequests (s\<lparr>files := f\<rparr>) = tokenRequests s"
  by (simp add: tokenRequests_def)

lemma trace_files_update: "trace (s\<lparr>files := f\<rparr>) = trace s"
  by simp

lemmas effect_simps =
  trace_emit files_emit tokenRequests_emit networkCalls_emit tokenRequests_files_update
  timeTrack_def

text \<open>What \<open>tryLoadCachedToken\<close> gives in each state of the cache file.\<close>

lemma tryLoadCachedToken_loaded:
  assumes "os_Stat w p = None" and "adal_LoadToken w p = Inr tok"
  shows "tryLoadCachedToken w p s = (emit [timeTrack ''tryLoadCachedToken''] s, Some tok, None)"
  using assms by (simp add: tryLoadCachedToken_def)


lemma cache_miss_usable:
  assumes "cache_miss w p" and "tryLoadCachedToken w p s = (s1, rawToken, None)"
  shows "usable w rawToken = None"
  using assms
  by (auto simp: cache_miss_def tryLoadCachedToken_def usable_def
           split: option.splits sum.splits if_splits)

text \<open>
  How \<open>Expires\<close> reads the stored seconds: exactly, up to 4611686018 seconds (the year
  2116); as the least int64 from 9223372037 seconds on, so that a token whose stored
  expiry is that far away is expired at every time from 1677 on.
\<close>

lemma Expires_exact:
  assumes "ExpiresOn t = Some sec" and "abs sec \<le> 4611686018"
  shows "Expires t = sec * 10 ^ 9"
proof -
  have "abs (sec * 5 ^ 9) = abs sec * 5 ^ 9" by (simp add: abs_mult)
  with assms(2) have "abs (sec * 5 ^ 9) < 2 ^ 53" by simp
  moreover from assms(2) have "abs sec \<le> 9223372036" by simp
  ultimately show ?thesis
    using assms(1) by (simp add: Expires_def date_NewUnixTimeFromSeconds_def Let_def)
qed

lemma Expires_overflow:
  assumes "ExpiresOn t = Some sec" and "9223372037 \<le> sec"
  shows "Expires t = minInt64" and "minInt64 \<le> now_t \<Longrightarrow> IsExpired now_t t"
  using assms by (simp_all add: Expires_def date_NewUnixTimeFromSeconds_def IsExpired_def)

text \<open>
  C1, as stated: with a cached token that loads and whose expiry is strictly in the
  future, no network call is made. It is not so for a stored expiry from 9223372037
  seconds on: the cache file holds \<open>token_far\<close>, whose stored expiry (\<open>10^10\<close> seconds,
  the year 2286) is after the current time (1000 seconds), the conversion to int64
  nanoseconds overflows, \<open>IsExpired\<close> holds, and \<open>getKeyvaultAuthorizer\<close> makes a token
  request and overwrites the cache file with the token issued.
\<close>

theorem getKeyvaultAuthorizer_far_expiry_requests:
  "adal_LoadToken (world0\<lparr>os_Stat := (\<lambda>p. None), adal_LoadToken := (\<lambda>p. Inr token_far)\<rparr>)
      ''cache/x.token.json'' = Inr token_far
   \<and> ExpiresOn token_far = Some 10000000000
   \<and> time_Now (world0\<lparr>os_Stat := (\<lambda>p. None), adal_LoadToken := (\<lambda>p. Inr token_far)\<rparr>)
       < 10000000000 * 10 ^ 9
   \<and> IsExpired
        (time_Now (world0\<lparr>os_Stat := (\<lambda>p. None), adal_LoadToken := (\<lambda>p. Inr token_far)\<rparr>))
        token_far
   \<and> networkCalls (fst (getKeyvaultAuthorizer
        (world0\<lparr>os_Stat := (\<lambda>p. None), adal_LoadToken := (\<lambda>p. Inr token_far)\<rparr>)
        globals1 state0)) = 1
   \<and> files (fst (getKeyvaultAuthorizer
        (world0\<lparr>os_Stat := (\<lambda>p. None), adal_LoadToken := (\<lambda>p. Inr token_far)\<rparr>)
        globals1 state0)) ''cache/x.token.json'' = Some (384, token1)"
  by (simp add: getKeyvaultAuthorizer_def Let_def tryLoadCachedToken_def usable_def IsExpired_def
        Expires_def date_NewUnixTimeFromSeconds_def minInt64_def token_far_def effect_simps
        world0_def globals1_def state0_def perm_0600_def networkCalls_def)

text \<open>
  C1, amended: with a cached token that loads and whose expiry as \<open>Token.Expires\<close>
  computes it (the stored seconds as int64 nanoseconds: the stored expiry itself up to
  4611686018 seconds, the year 1677 from 9223372037 seconds on) is strictly after the
  current time, \<open>getKeyvaultAuthorizer\<close> makes no network call (and writes no file) and
  returns the bearer authorizer of the service principal token built from the cached
  token. The hypotheses say that the run reaches the cache (the OAuth configuration and
  the endpoint URL are built) and that adal's constructor accepts its parameters.
\<close>

theorem getKeyvaultAuthorizer_uses_cached_token:
  assumes "adal_NewOAuthConfig w (ActiveDirectoryEndpoint w) (tenantID g) = Inr cfg"
    and "url_Parse w (''https://login.windows.net/'' @ tenantID g @ ''/oauth2/token'') = Inr u"
    and "os_Stat w (filepath_Join w ''cache'' (clientID g @ ''.token.json'')) = None"
    and "adal_LoadToken w (filepath_Join w ''cache'' (clientID g @ ''.token.json'')) = Inr tok"
    and "time_Now w < Expires tok"
    and "adal_NewServicePrincipalTokenFromManualToken w (cfg\<lparr>AuthorizeEndpoint := u\<rparr>)
           (clientID g) ''https://vault.azure.net'' tok = None"
  shows "snd (getKeyvaultAuthorizer w g s) =
           Inr (BearerAuthorizer
                  \<lparr>spt_oauthConfig = cfg\<lparr>AuthorizeEndpoint := u\<rparr>, spt_clientID = clientID g,
                   spt_secret = '''', spt_resource = ''https://vault.azure.net'',
                   spt_token = tok\<rparr>)
         \<and> networkCalls (fst (getKeyvaultAuthorizer w g s)) = networkCalls s
         \<and> files (fst (getKeyvaultAuthorizer w g s)) = files s"
  using assms
  by (simp add: getKeyvaultAuthorizer_def tryLoadCachedToken_loaded usable_def IsExpired_def
        effect_simps)

theorem getKeyvaultAuthorizer_uses_cached_token_witness:
  "snd (getKeyvaultAuthorizer
          (world0\<lparr>os_Stat := (\<lambda>p. None), adal_LoadToken := (\<lambda>p. Inr token1)\<rparr>)
          globals1 state0) =
     Inr (BearerAuthorizer
            \<lparr>spt_oauthConfig = config0\<lparr>AuthorizeEndpoint := ''https://login.windows.net/x/oauth2/token''\<rparr>,
             spt_clientID = ''x'', spt_secret = '''',
             spt_resource = ''https://vault.azure.net'', spt_token = token1\<rparr>)
   \<and> networkCalls (fst (getKeyvaultAuthorizer
          (world0\<lparr>os_Stat := (\<lambda>p. None), adal_LoadToken := (\<lambda>p. Inr token1)\<rparr>)
          globals1 state0)) = 0"
  using getKeyvaultAuthorizer_uses_cached_token
    [of "world0\<lparr>os_Stat := (\<lambda>p. None), adal_LoadToken := (\<lambda>p. Inr token1)\<rparr>"
        globals1 config0 "''https://login.windows.net/x/oauth2/token''" token1 state0]
  by (simp add: world0_def globals1_def token1_def Expires_def date_NewUnixTimeFromSeconds_def
        state0_def networkCalls_def)



text \<open>
  The two other cases of C5 at concrete inputs: a cache file that does not load, and an
  expired cached token.
\<close>

lemma getKeyvaultAuthorizer_corrupt_cache_example:
  "tokenRequests (fst (getKeyvaultAuthorizer
      (world0\<lparr>os_Stat := (\<lambda>p. None),
              adal_LoadToken := (\<lambda>p. Inl (ErrorString ''failed to decode contents of file''))\<rparr>)
      globals1 state0)) = 1
   \<and> files (fst (getKeyvaultAuthorizer
      (world0\<lparr>os_Stat := (\<lambda>p. None),
              adal_LoadToken := (\<lambda>p. Inl (ErrorString ''failed to decode contents of file''))\<rparr>)
      globals1 state0)) ''cache/x.token.json'' = Some (384, token1)"
  by (simp add: getKeyvaultAuthorizer_def Let_def tryLoadCachedToken_def usable_def effect_simps
        world0_def globals1_def state0_def perm_0600_def tokenRequests_def)

lemma getKeyvaultAuthorizer_expired_cache_example:
  "tokenRequests (fst (getKeyvaultAuthorizer
      (world0\<lparr>os_Stat := (\<lambda>p. None), adal_LoadToken := (\<lambda>p. Inr token_old)\<rparr>)
      globals1 state0)) = 1
   \<and> files (fst (getKeyvaultAuthorizer
      (world0\<lparr>os_Stat := (\<lambda>p. None), adal_LoadToken := (\<lambda>p. Inr token_old)\<rparr>)
      globals1 state0)) ''cache/x.token.json'' = Some (384, token1)"
  by (simp add: getKeyvaultAuthorizer_def Let_def tryLoadCachedToken_def usable_def IsExpired_def
        Expires_def date_NewUnixTimeFromSeconds_def token_old_def effect_simps world0_def
        globals1_def state0_def perm_0600_def
        tokenRequests_def)

text \<open>
  C3, as stated: a rejected token request makes \<open>getKeyvaultAuthorizer\<close> fail. It does
  not: with no cache file and an identity provider that rejects the request, the function
  returns a bearer authorizer (of the service principal token that still holds the zero
  token) and no error.
\<close>

theorem getKeyvaultAuthorizer_returns_after_rejected_request:
  "snd (getKeyvaultAuthorizer
          (world0\<lparr>spt_Refresh := (\<lambda>spt. Inl (ErrorString ''invalid_client''))\<rparr>)
          globals1 state0) =
     Inr (BearerAuthorizer
            \<lparr>spt_oauthConfig = config0\<lparr>AuthorizeEndpoint := ''https://login.windows.net/x/oauth2/token''\<rparr>,
             spt_clientID = ''x'', spt_secret = ''x'',
             spt_resource = ''https://vault.azure.net'', spt_token = zeroToken\<rparr>)"
  by (simp add: getKeyvaultAuthorizer_def Let_def tryLoadCachedToken_def usable_def
        effect_simps world0_def globals1_def state0_def)

text \<open>
  C3, amended: on a cache miss, a token request that the identity provider rejects (or
  that cannot be sent) does not make \<open>getKeyvaultAuthorizer\<close> fail: the function logs
  the warning \<open>Could not refresh token\<close> and returns the bearer authorizer of the service
  principal token as it was constructed, without a refreshed token.
\<close>

theorem getKeyvaultAuthorizer_rejected_request_warns:
  assumes "adal_NewOAuthConfig w (ActiveDirectoryEndpoint w) (tenantID g) = Inr cfg"
    and "url_Parse w (''https://login.windows.net/'' @ tenantID g @ ''/oauth2/token'') = Inr u"
    and "cache_miss w (filepath_Join w ''cache'' (clientID g @ ''.token.json''))"
    and "adal_NewServicePrincipalToken w (cfg\<lparr>AuthorizeEndpoint := u\<rparr>) (clientID g)
           (clientSecret g) ''https://vault.azure.net'' = None"
    and "spt_Refresh w
           \<lparr>spt_oauthConfig = cfg\<lparr>AuthorizeEndpoint := u\<rparr>, spt_clientID = clientID g,
            spt_secret = clientSecret g, spt_resource = ''https://vault.azure.net'',
            spt_token = zeroToken\<rparr> = Inl e"
  shows "snd (getKeyvaultAuthorizer w g s) =
           Inr (BearerAuthorizer
                  \<lparr>spt_oauthConfig = cfg\<lparr>AuthorizeEndpoint := u\<rparr>, spt_clientID = clientID g,
                   spt_secret = clientSecret g, spt_resource = ''https://vault.azure.net'',
                   spt_token = zeroToken\<rparr>)
         \<and> Log WarnLevel ''Could not refresh token: %v'' [ArgMethodValue e]
               \<in> set (trace (fst (getKeyvaultAuthorizer w g s)))"
proof -
  let ?p = "filepath_Join w ''cache'' (clientID g @ ''.token.json'')"
  obtain s1 rawToken err where load: "tryLoadCachedToken w ?p s = (s1, rawToken, err)"
    by (cases "tryLoadCachedToken w ?p s") auto
  have miss: "err = None \<Longrightarrow> usable w rawToken = None"
    using cache_miss_usable [OF assms(3)] load by simp
  show ?thesis
  proof (cases err)
    case None
    with miss have "usable w rawToken = None" by simp
    with None load assms(1,2,4,5) show ?thesis
      by (auto simp: getKeyvaultAuthorizer_def Let_def effect_simps
               split: sum.splits option.splits)
  next
    case (Some e')
    with load assms(1,2,4,5) show ?thesis
      by (auto simp: getKeyvaultAuthorizer_def Let_def usable_def effect_simps
               split: sum.splits option.splits)
  qed
qed

theorem getKeyvaultAuthorizer_rejected_request_warns_witness:
  "Log WarnLevel ''Could not refresh token: %v'' [ArgMethodValue (ErrorString ''invalid_client'')]
     \<in> set (trace (fst (getKeyvaultAuthorizer
          (world0\<lparr>spt_Refresh := (\<lambda>spt. Inl (ErrorString ''invalid_client''))\<rparr>)
          globals1 state0)))"
  using getKeyvaultAuthorizer_rejected_request_warns
    [of "world0\<lparr>spt_Refresh := (\<lambda>spt. Inl (ErrorString ''invalid_client''))\<rparr>"
        globals1 config0 "''https://login.windows.net/x/oauth2/token''"
        "ErrorString ''invalid_client''" state0]
  by (simp add: world0_def globals1_def cache_miss_def)

text \<open>
  C4. A cache read problem never makes the token function fail. This holds for
  \<open>getKeyvaultAuthorizer\<close> of \<open>main.go\<close> (lemma
  \<open>getKeyvaultAuthorizer_cache_read_failure_not_fatal\<close> below). The earlier copy does
  not do it: with a cache file that is present and does not deserialize,
  \<open>getKeyvaultToken\<close> returns the read error, makes no token request and logs nothing.
\<close>

theorem getKeyvaultToken_fails_on_corrupt_cache:
  "getKeyvaultToken
     (world0\<lparr>os_Stat := (\<lambda>p. None),
             adal_LoadToken := (\<lambda>p. Inl (ErrorString ''failed to decode contents of file''))\<rparr>)
     globals1 state0
   = (state0,
      Return (Inl (ErrorString
        ''Failed to load token from file: failed to decode contents of file'')))"
  by (simp add: getKeyvaultToken_def Let_def tryLoadCachedToken_part001_def
        world0_def globals1_def)

lemma getKeyvaultAuthorizer_cache_read_failure_not_fatal:
  assumes "adal_NewOAuthConfig w (ActiveDirectoryEndpoint w) (tenantID g) = Inr cfg"
    and "url_Parse w (''https://login.windows.net/'' @ tenantID g @ ''/oauth2/token'') = Inr u"
    and "os_Stat w (filepath_Join w ''cache'' (clientID g @ ''.token.json'')) = Some e
         \<or> adal_LoadToken w (filepath_Join w ''cache'' (clientID g @ ''.token.json'')) = Inl e"
    and "adal_NewServicePrincipalToken w (cfg\<lparr>AuthorizeEndpoint := u\<rparr>) (clientID g)
           (clientSecret g) ''https://vault.azure.net'' = None"
  shows "(\<exists>spt. snd (getKeyvaultAuthorizer w g s) = Inr (BearerAuthorizer spt))
         \<and> tokenRequests (fst (getKeyvaultAuthorizer w g s)) = tokenRequests s + 1"
  using assms
  by (auto simp: getKeyvaultAuthorizer_def Let_def tryLoadCachedToken_def usable_def
        effect_simps split: sum.splits option.splits)

lemma getKeyvaultAuthorizer_corrupt_cache_returns:
  "\<exists>spt. snd (getKeyvaultAuthorizer
     (world0\<lparr>os_Stat := (\<lambda>p. None),
             adal_LoadToken := (\<lambda>p. Inl (ErrorString ''failed to decode contents of file''))\<rparr>)
     globals1 state0) = Inr (BearerAuthorizer spt)"
  by (simp add: getKeyvaultAuthorizer_def Let_def tryLoadCachedToken_def usable_def
        effect_simps world0_def globals1_def state0_def)

text \<open>
  C6. A failed write of the cache file does not make the token function fail when the
  token request succeeded. This holds for \<open>getKeyvaultAuthorizer\<close> of \<open>main.go\<close> (lemma
  \<open>getKeyvaultAuthorizer_save_failure_not_fatal\<close> below). The earlier copy does not do
  it: with no cache file, a token request that succeeds and a cache directory that
  cannot be written, \<open>getKeyvaultToken\<close> returns the error of \<open>adal.SaveToken\<close> and no
  authorizer.
\<close>

theorem getKeyvaultToken_fails_on_cache_write:
  "snd (getKeyvaultToken
          (world0\<lparr>adal_SaveToken := (\<lambda>p m t. Some (PathError ''open'' p EACCES))\<rparr>)
          globals1 state0)
     = Return (Inl (PathError ''open'' ''cache/x.token.json'' EACCES))
   \<and> tokenRequests (fst (getKeyvaultToken
          (world0\<lparr>adal_SaveToken := (\<lambda>p m t. Some (PathError ''open'' p EACCES))\<rparr>)
          globals1 state0)) = 1"
  by (simp add: getKeyvaultToken_def Let_def tryLoadCachedToken_part001_def usable_def
        effect_simps timeTrack_part001_def world0_def globals1_def state0_def
        tokenRequests_def)

lemma getKeyvaultAuthorizer_save_failure_not_fatal:
  assumes "adal_NewOAuthConfig w (ActiveDirectoryEndpoint w) (tenantID g) = Inr cfg"
    and "url_Parse w (''https://login.windows.net/'' @ tenantID g @ ''/oauth2/token'') = Inr u"
    and "cache_miss w (filepath_Join w ''cache'' (clientID g @ ''.token.json''))"
    and "adal_NewServicePrincipalToken w (cfg\<lparr>AuthorizeEndpoint := u\<rparr>) (clientID g)
           (clientSecret g) ''https://vault.azure.net'' = None"
    and "spt_Refresh w
           \<lparr>spt_oauthConfig = cfg\<lparr>AuthorizeEndpoint := u\<rparr>, spt_clientID = clientID g,
            spt_secret = clientSecret g, spt_resource = ''https://vault.azure.net'',
            spt_token = zeroToken\<rparr> = Inr tok"
    and "adal_SaveToken w (filepath_Join w ''cache'' (clientID g @ ''.token.json''))
           perm_0600 tok = Some e"
  shows "snd (getKeyvaultAuthorizer w g s) =
           Inr (BearerAuthorizer
                  \<lparr>spt_oauthConfig = cfg\<lparr>AuthorizeEndpoint := u\<rparr>, spt_clientID = clientID g,
                   spt_secret = clientSecret g, spt_resource = ''https://vault.azure.net'',
                   spt_token = tok\<rparr>)
         \<and> Log WarnLevel ''Could not save token to cache path=%q: %v''
               [ArgString (filepath_Join w ''cache'' (clientID g @ ''.token.json'')),
                ArgString (Error e)]
               \<in> set (trace (fst (getKeyvaultAuthorizer w g s)))"
proof -
  let ?p = "filepath_Join w ''cache'' (clientID g @ ''.token.json'')"
  obtain s1 rawToken err where load: "tryLoadCachedToken w ?p s = (s1, rawToken, err)"
    by (cases "tryLoadCachedToken w ?p s") auto
  have miss: "err = None \<Longrightarrow> usable w rawToken = None"
    using cache_miss_usable [OF assms(3)] load by simp
  show ?thesis
  proof (cases err)
    case None
    with miss have "usable w rawToken = None" by simp
    with None load assms(1,2,4,5,6) show ?thesis
      by (auto simp: getKeyvaultAuthorizer_def Let_def effect_simps
               split: sum.splits option.splits)
  next
    case (Some e')
    with load assms(1,2,4,5,6) show ?thesis
      by (auto simp: getKeyvaultAuthorizer_def Let_def usable_def effect_simps
               split: sum.splits option.splits)
  qed
qed

lemma getKeyvaultAuthorizer_save_failure_example:
  "snd (getKeyvaultAuthorizer
          (world0\<lparr>adal_SaveToken := (\<lambda>p m t. Some (PathError ''open'' p EACCES))\<rparr>)
          globals1 state0) =
     Inr (BearerAuthorizer
            \<lparr>spt_oauthConfig = config0\<lparr>AuthorizeEndpoint := ''https://login.windows.net/x/oauth2/token''\<rparr>,
             spt_clientID = ''x'', spt_secret = ''x'',
             spt_resource = ''https://vault.azure.net'', spt_token = token1\<rparr>)"
  by (simp add: getKeyvaultAuthorizer_def Let_def tryLoadCachedToken_def usable_def
        effect_simps world0_def globals1_def state0_def)

section \<open>The secret client and the orchestrator: results\<close>

lemma secretFetches_emit:
  "secretFetches (emit evs s) = secretFetches s + length (filter is_GetSecretCall evs)"
  by (simp add: emit_def secretFetches_def)

lemma secretFetches_warnSecret: "secretFetches (warnSecret name err s) = secretFetches s"
  by (simp add: warnSecret_def secretFetches_emit split: option.splits)

text \<open>
  C10. \<open>getSecret\<close> dereferences the \<open>Value\<close> pointer of the bundle without a nil test:
  when the call of \<open>GetSecret\<close> succeeds and the bundle has no value, \<open>getSecret\<close> panics
  (it does not return an error); when the bundle has a value, it returns that value and
  no error.
\<close>

theorem getSecret_panics_without_value:
  assumes "keyvault_GetSecret w cli b n v = Inr bundle"
  shows "(Value bundle = None \<longrightarrow> snd (getSecret w cli b n v s) = Panic)
         \<and> (\<forall>x. Value bundle = Some x \<longrightarrow> snd (getSecret w cli b n v s) = Return (x, None))"
  using assms by (simp add: getSecret_def Let_def split: option.splits)

theorem getSecret_panics_without_value_witness:
  "snd (getSecret (world0\<lparr>keyvault_GetSecret := (\<lambda>c b n v. Inr \<lparr>Value = None, ID = Some ''id''\<rparr>)\<rparr>)
          \<lparr>client_Authorizer = None\<rparr> ''https://v'' ''Password'' '''' state0) = Panic
   \<and> snd (getSecret world0 \<lparr>client_Authorizer = None\<rparr> ''https://v'' ''Password'' '''' state0)
       = Return (''v'', None)"
  using getSecret_panics_without_value
      [of "world0\<lparr>keyvault_GetSecret := (\<lambda>c b n v. Inr \<lparr>Value = None, ID = Some ''id''\<rparr>)\<rparr>"
          "\<lparr>client_Authorizer = None\<rparr>" "''https://v''" "''Password''" "''''"
          "\<lparr>Value = None, ID = Some ''id''\<rparr>" state0]
    getSecret_panics_without_value
      [of world0 "\<lparr>client_Authorizer = None\<rparr>" "''https://v''" "''Password''" "''''"
          "\<lparr>Value = Some ''v'', ID = None\<rparr>" state0]
  by (simp add: world0_def)

text \<open>
  C8. After the configuration is loaded and the credential acquired, a failed fetch is
  a warning, the next secret is fetched, and the exit status is zero. This holds for
  \<open>main\<close> of \<open>main.go\<close> (lemmas \<open>main_continues_after_failed_fetches\<close> and
  \<open>main_failed_fetches_example\<close> below). The earlier copy does not do it: with a secret
  store that fails every fetch, its \<open>main\<close> prints the error of the first fetch through
  \<open>onErrorFail\<close> and ends the process with status 1, having fetched one secret of three.
\<close>

theorem main_part001_exits_at_first_failed_fetch:
  "snd (main_part001
          (world0\<lparr>keyvault_GetSecret := (\<lambda>c b n v. Inl (ErrorString ''SecretNotFound''))\<rparr>)
          globals0 state0) = 1
   \<and> secretFetches (fst (main_part001
          (world0\<lparr>keyvault_GetSecret := (\<lambda>c b n v. Inl (ErrorString ''SecretNotFound''))\<rparr>)
          globals0 state0)) = 1
   \<and> last (trace (fst (main_part001
          (world0\<lparr>keyvault_GetSecret := (\<lambda>c b n v. Inl (ErrorString ''SecretNotFound''))\<rparr>)
          globals0 state0))) = Stdout ''getUsername failed: SecretNotFound''"
  by (simp add: main_part001_def parseArgs_part001_def LoadEnvVars_def gotenv_Load_def
        strings_HasPrefix_def parseArgs_def Sprintln_def getKeysClient_part001_def
        getKeyvaultToken_def tryLoadCachedToken_part001_def usable_def Let_def
        timeTrack_part001_def getSecret_def onErrorFail_def emit_def secretFetches_def
        world0_def globals0_def state0_def)

lemma main_failed_fetches_example:
  "snd (main
          (world0\<lparr>keyvault_GetSecret := (\<lambda>c b n v. Inl (ErrorString ''SecretNotFound''))\<rparr>)
          globals0 state0) = 0
   \<and> secretFetches (fst (main
          (world0\<lparr>keyvault_GetSecret := (\<lambda>c b n v. Inl (ErrorString ''SecretNotFound''))\<rparr>)
          globals0 state0)) = 3
   \<and> length (filter (\<lambda>e. e = Log WarnLevel ''Error when trying to retrieve secret %s. Error: %v''
                               [ArgString ''x'', ArgString ''SecretNotFound''])
        (trace (fst (main
          (world0\<lparr>keyvault_GetSecret := (\<lambda>c b n v. Inl (ErrorString ''SecretNotFound''))\<rparr>)
          globals0 state0)))) = 3"
  by (simp add: main_def parseArgs_def Sprintln_def getKeysClient_def
        getKeyvaultAuthorizer_def tryLoadCachedToken_def usable_def Let_def
        timeTrack_def getSecret_def warnSecret_def emit_def secretFetches_def
        world0_def globals0_def state0_def)

text \<open>
  For every world: once \<open>parseArgs\<close> and \<open>getKeysClient\<close> have returned no error, and
  however many of the three fetches fail, \<open>main\<close> makes all three fetches and the exit
  status is 0, unless a fetch panics on a bundle without value.
\<close>

lemma getSecret_cases:
  assumes "\<forall>b n v bundle. keyvault_GetSecret w cli b n v = Inr bundle \<longrightarrow> Value bundle \<noteq> None"
  shows "\<exists>x err. getSecret w cli b n v s
           = (emit [GetSecretCall b n v] s, Return (x, err))"
proof (cases "keyvault_GetSecret w cli b n v")
  case (Inl e)
  then show ?thesis by (simp add: getSecret_def Let_def)
next
  case (Inr sb)
  with assms obtain x where "Value sb = Some x" by fastforce
  with Inr show ?thesis by (simp add: getSecret_def Let_def)
qed

lemma main_continues_after_failed_fetches:
  assumes "parseArgs w g = (g', None)"
    and "getKeysClient w g' (emit [Stdout (Sprintln ''Getting Key Vault'')] s) = (s1, cli, None)"
    and "\<forall>b n v bundle. keyvault_GetSecret w cli b n v = Inr bundle \<longrightarrow> Value bundle \<noteq> None"
  shows "snd (main w g s) = 0 \<and> secretFetches (fst (main w g s)) = secretFetches s1 + 3"
proof -
  obtain x1 e1 where f1:
    "getSecret w cli (vaultBaseURL g') (userSecretName g') (userSecretVersion g') s1
       = (emit [GetSecretCall (vaultBaseURL g') (userSecretName g') (userSecretVersion g')] s1,
          Return (x1, e1))"
    using getSecret_cases [OF assms(3)] by blast
  define s2 where "s2 =
    emit [Stdout (Sprintln ''--- Password with no version set (current) ---'')]
      (emit [Stdout (''Username Value= '' @ x1 @ ''\<newline>'')]
        (warnSecret (userSecretName g') e1
          (emit [GetSecretCall (vaultBaseURL g') (userSecretName g') (userSecretVersion g')] s1)))"
  obtain x2 e2 where f2:
    "getSecret w cli (vaultBaseURL g') (passwordSecretName g') '''' s2
       = (emit [GetSecretCall (vaultBaseURL g') (passwordSecretName g') ''''] s2,
          Return (x2, e2))"
    using getSecret_cases [OF assms(3)] by blast
  define s3 where "s3 =
    emit [Stdout (''--- Password version '' @ passwordSecretVersion g' @ '' ---\<newline>'')]
      (emit [Stdout (''  Password Value= '' @ x2 @ ''\<newline>'')]
        (warnSecret (passwordSecretName g') e2
          (emit [GetSecretCall (vaultBaseURL g') (passwordSecretName g') ''''] s2)))"
  obtain x3 e3 where f3:
    "getSecret w cli (vaultBaseURL g') (passwordSecretName g') (passwordSecretVersion g') s3
       = (emit [GetSecretCall (vaultBaseURL g') (passwordSecretName g')
                  (passwordSecretVersion g')] s3,
          Return (x3, e3))"
    using getSecret_cases [OF assms(3)] by blast
  have m: "main w g s =
      (emit [Stdout (''  Password Value= '' @ x3 @ ''\<newline>'')]
         (warnSecret (passwordSecretName g') e3
            (emit [GetSecretCall (vaultBaseURL g') (passwordSecretName g')
                     (passwordSecretVersion g')] s3)), 0)"
    using assms(1,2) f1 f2 f3 by (simp add: main_def Let_def s2_def s3_def)
  show ?thesis
    by (simp add: m s3_def s2_def secretFetches_emit secretFetches_warnSecret)
qed

end
